theory Spec2Isabelle
  imports Complex_Main "HOL-Library.Word"
begin

section \<open>The float64 values of the renderer\<close>

text \<open>
  Every number of the ray tracer is a Go \<open>float64\<close>. The model keeps the four kinds of
  value the program can tell apart: a finite number, the two infinities and NaN. Finite
  arithmetic is exact: a sum, product, quotient or square root of finite values is the
  real one, with no rounding, no overflow to an infinity and no underflow to zero. The
  special values follow IEEE 754 and the documented special cases of Go's \<open>math\<close>
  package. The two zeros are identified: every divisor of the program is a sum of squares
  or a product of square roots, hence never \<open>-0\<close>, and comparisons do not tell the zeros
  apart.
  So a computed value of the model can differ from the float64 the program computes, and a
  test on a computed value (such as \<open>a == 0\<close> on a squared length that underflows) can
  come out differently. The theorems below are therefore stated in terms of the tests the
  code makes on the values it has computed, and their proofs use the comparisons and the
  branches only, or arithmetic that is exact in float64 as well (multiplying by 0 or 1,
  small integers).
\<close>

datatype float64 = Fin real | PInf | NInf | NaN

text \<open>Comparisons: every comparison with NaN is false.\<close>

fun flt :: "float64 \<Rightarrow> float64 \<Rightarrow> bool" where
  "flt NaN _ = False"
| "flt _ NaN = False"
| "flt (Fin a) (Fin b) = (a < b)"
| "flt _ NInf = False"
| "flt PInf _ = False"
| "flt NInf _ = True"
| "flt _ PInf = True"

fun feq :: "float64 \<Rightarrow> float64 \<Rightarrow> bool" where
  "feq NaN _ = False"
| "feq _ NaN = False"
| "feq a b = (a = b)"

definition fle :: "float64 \<Rightarrow> float64 \<Rightarrow> bool" where
  "fle a b = (flt a b \<or> feq a b)"

definition fgt :: "float64 \<Rightarrow> float64 \<Rightarrow> bool" where
  "fgt a b = flt b a"

definition fge :: "float64 \<Rightarrow> float64 \<Rightarrow> bool" where
  "fge a b = fle b a"

text \<open>Arithmetic.\<close>

fun fneg :: "float64 \<Rightarrow> float64" where
  "fneg (Fin a) = Fin (- a)"
| "fneg PInf = NInf"
| "fneg NInf = PInf"
| "fneg NaN = NaN"

fun fadd :: "float64 \<Rightarrow> float64 \<Rightarrow> float64" where
  "fadd NaN _ = NaN"
| "fadd _ NaN = NaN"
| "fadd (Fin a) (Fin b) = Fin (a + b)"
| "fadd PInf NInf = NaN"
| "fadd NInf PInf = NaN"
| "fadd PInf _ = PInf"
| "fadd _ PInf = PInf"
| "fadd NInf _ = NInf"
| "fadd _ NInf = NInf"

definition fsub :: "float64 \<Rightarrow> float64 \<Rightarrow> float64" where
  "fsub a b = fadd a (fneg b)"

text \<open>The sign of a value that is not NaN: \<open>-1\<close>, \<open>0\<close> or \<open>1\<close>.\<close>

fun fsign :: "float64 \<Rightarrow> real" where
  "fsign (Fin a) = sgn a"
| "fsign PInf = 1"
| "fsign NInf = - 1"
| "fsign NaN = 0"

definition inf_of_sign :: "real \<Rightarrow> float64" where
  "inf_of_sign s = (if s = 0 then NaN else if 0 < s then PInf else NInf)"

fun fmul :: "float64 \<Rightarrow> float64 \<Rightarrow> float64" where
  "fmul NaN _ = NaN"
| "fmul _ NaN = NaN"
| "fmul (Fin a) (Fin b) = Fin (a * b)"
| "fmul a b = inf_of_sign (fsign a * fsign b)"

fun fdiv :: "float64 \<Rightarrow> float64 \<Rightarrow> float64" where
  "fdiv NaN _ = NaN"
| "fdiv _ NaN = NaN"
| "fdiv (Fin a) (Fin b) = (if b = 0 then inf_of_sign (sgn a) else Fin (a / b))"
| "fdiv (Fin a) _ = Fin 0"
| "fdiv a (Fin b) = inf_of_sign (fsign a * (if b < 0 then - 1 else 1))"
| "fdiv _ _ = NaN"

text \<open>\<open>math.Sqrt\<close>: NaN below zero, \<open>+Inf\<close> at \<open>+Inf\<close>.\<close>

fun fsqrt :: "float64 \<Rightarrow> float64" where
  "fsqrt (Fin a) = (if a < 0 then NaN else Fin (sqrt a))"
| "fsqrt PInf = PInf"
| "fsqrt NInf = NaN"
| "fsqrt NaN = NaN"

text \<open>\<open>math.Abs\<close>.\<close>

fun fabs :: "float64 \<Rightarrow> float64" where
  "fabs (Fin a) = Fin \<bar>a\<bar>"
| "fabs PInf = PInf"
| "fabs NInf = PInf"
| "fabs NaN = NaN"

text \<open>
  \<open>math.Max\<close> and \<open>math.Min\<close>. Go tests the infinity first, then NaN:
  \<open>Max(x, +Inf) = Max(+Inf, x) = +Inf\<close>, \<open>Max(x, NaN) = Max(NaN, x) = NaN\<close>, and
  likewise \<open>Min\<close> with \<open>-Inf\<close>.
\<close>

definition fmax :: "float64 \<Rightarrow> float64 \<Rightarrow> float64" where
  "fmax a b =
     (if a = PInf \<or> b = PInf then PInf
      else if a = NaN \<or> b = NaN then NaN
      else if flt b a then a else b)"

definition fmin :: "float64 \<Rightarrow> float64 \<Rightarrow> float64" where
  "fmin a b =
     (if a = NInf \<or> b = NInf then NInf
      else if a = NaN \<or> b = NaN then NaN
      else if flt a b then a else b)"

text \<open>
  \<open>math.Pow\<close>, by the special cases of its documentation, in their order. A finite
  negative base with a finite exponent has a value only at an integer exponent.
\<close>

definition odd_integer :: "real \<Rightarrow> bool" where
  "odd_integer b = (b = of_int \<lfloor>b\<rfloor> \<and> odd \<lfloor>b\<rfloor>)"

definition pow_zero :: "float64 \<Rightarrow> float64" where
  "pow_zero e =
     (case e of
        NInf \<Rightarrow> PInf
      | PInf \<Rightarrow> Fin 0
      | Fin b \<Rightarrow> (if b < 0 then PInf else Fin 0)
      | NaN \<Rightarrow> NaN)"

definition fpow :: "float64 \<Rightarrow> float64 \<Rightarrow> float64" where
  "fpow x e =
     (if e = Fin 0 \<or> x = Fin 1 then Fin 1
      else if e = Fin 1 then x
      else if x = NaN \<or> e = NaN then NaN
      else if x = Fin 0 then pow_zero e
      else if e = PInf \<or> e = NInf then
        (if x = Fin (- 1) then Fin 1
         else if flt (fabs x) (Fin 1) = (e = PInf) then Fin 0 else PInf)
      else if x = PInf then (if flt e (Fin 0) then Fin 0 else PInf)
      else
        (case (x, e) of
           (NInf, Fin b) \<Rightarrow>
             (if 0 < b then (if odd_integer b then NInf else PInf) else Fin 0)
         | (Fin a, Fin b) \<Rightarrow>
             (if 0 < a then Fin (a powr b)
              else if b = of_int \<lfloor>b\<rfloor>
              then Fin ((if odd \<lfloor>b\<rfloor> then - 1 else 1) * (\<bar>a\<bar> powr b))
              else NaN)
         | _ \<Rightarrow> NaN))"

text \<open>
  \<open>math.MaxFloat64\<close>, as Go defines it: \<open>0x1p1023 * (2 - 0x1p-52)\<close>.
\<close>

definition MaxFloat64 :: float64 where
  "MaxFloat64 = Fin (2 ^ 1023 * (2 - 1 / 2 ^ 52))"

text \<open>
  The conversions between a colour channel and a float64. \<open>float64(c)\<close> is exact.
  \<open>uint8(x)\<close> truncates towards zero; for a value outside \<open>[0, 256)\<close> Go leaves the
  result to the implementation. The model follows the amd64 build, which converts to an
  \<open>int32\<close> and keeps the low 8 bits: the truncated integer modulo 256 when it is in the
  \<open>int32\<close> range, and 0 otherwise, as for NaN and the infinities.
\<close>

type_synonym uint8 = "8 word"

definition float64_of_uint8 :: "uint8 \<Rightarrow> float64" where
  "float64_of_uint8 c = Fin (real (unat c))"

fun uint8_of_float64 :: "float64 \<Rightarrow> uint8" where
  "uint8_of_float64 (Fin a) =
     (let i = (if a < 0 then - \<lfloor>- a\<rfloor> else \<lfloor>a\<rfloor>)
      in if - (2 ^ 31) \<le> i \<and> i < 2 ^ 31 then word_of_int i else 0)"
| "uint8_of_float64 _ = 0"

section \<open>vector3\<close>

record Vector3 =
  X :: float64
  Y :: float64
  Z :: float64

definition Add :: "Vector3 \<Rightarrow> Vector3 \<Rightarrow> Vector3" where
  "Add v1 v2 = \<lparr>X = fadd (X v1) (X v2), Y = fadd (Y v1) (Y v2), Z = fadd (Z v1) (Z v2)\<rparr>"

definition Sub :: "Vector3 \<Rightarrow> Vector3 \<Rightarrow> Vector3" where
  "Sub v1 v2 = \<lparr>X = fsub (X v1) (X v2), Y = fsub (Y v1) (Y v2), Z = fsub (Z v1) (Z v2)\<rparr>"

definition MulScalar :: "Vector3 \<Rightarrow> float64 \<Rightarrow> Vector3" where
  "MulScalar v scalar = \<lparr>X = fmul (X v) scalar, Y = fmul (Y v) scalar, Z = fmul (Z v) scalar\<rparr>"

definition DivScalar :: "Vector3 \<Rightarrow> float64 \<Rightarrow> Vector3" where
  "DivScalar v scalar = \<lparr>X = fdiv (X v) scalar, Y = fdiv (Y v) scalar, Z = fdiv (Z v) scalar\<rparr>"

definition Dot :: "Vector3 \<Rightarrow> Vector3 \<Rightarrow> float64" where
  "Dot v1 v2 = fadd (fadd (fmul (X v1) (X v2)) (fmul (Y v1) (Y v2))) (fmul (Z v1) (Z v2))"

definition Negate :: "Vector3 \<Rightarrow> Vector3" where
  "Negate v = \<lparr>X = fneg (X v), Y = fneg (Y v), Z = fneg (Z v)\<rparr>"

definition Length :: "Vector3 \<Rightarrow> float64" where
  "Length v = fsqrt (fadd (fadd (fmul (X v) (X v)) (fmul (Y v) (Y v))) (fmul (Z v) (Z v)))"

definition Copy :: "Vector3 \<Rightarrow> Vector3" where
  "Copy v = \<lparr>X = X v, Y = Y v, Z = Z v\<rparr>"

definition Normalize :: "Vector3 \<Rightarrow> Vector3" where
  "Normalize v = (let m = Length v in if fgt m (Fin 0) then DivScalar v m else Copy v)"

text \<open>The method \<open>v.Reflect(other)\<close>: \<open>factor * v + other\<close> with \<open>factor = -2 * v.Dot(other)\<close>.\<close>

definition Reflect :: "Vector3 \<Rightarrow> Vector3 \<Rightarrow> Vector3" where
  "Reflect v other =
     (let factor = fmul (Fin (- 2)) (Dot v other)
      in \<lparr>X = fadd (fmul factor (X v)) (X other),
          Y = fadd (fmul factor (Y v)) (Y other),
          Z = fadd (fmul factor (Z v)) (Z other)\<rparr>)"

section \<open>Spheres and the closest hit\<close>

record Color =
  R :: uint8
  G :: uint8
  B :: uint8
  A :: uint8

record Sphere =
  radius :: float64
  center :: Vector3
  color :: Color
  specular :: float64
  reflective :: float64

text \<open>The two panics of the program; either one ends the process.\<close>

datatype panic = ComputeIntersection_Division_by_zero | ComputeLighting_Division_by_zero

text \<open>
  \<open>Epsilon\<close> is the float64 of the literal \<open>0.001\<close>, which is
  \<open>1152921504606847 / 2^60\<close>, a little above one thousandth.
\<close>

definition Epsilon :: float64 where
  "Epsilon = Fin (1152921504606847 / 2 ^ 60)"

definition MaxIntensity :: float64 where
  "MaxIntensity = Fin 1"

definition IsNull :: "Sphere \<Rightarrow> bool" where
  "IsNull s =
     (fle (fabs (fsub (radius s) (Fin 0))) Epsilon \<and>
      fle (fabs (fsub (Length (center s)) (Fin 0))) Epsilon)"

definition ComputeIntersection :: "Sphere \<Rightarrow> Vector3 \<Rightarrow> Vector3 \<Rightarrow> panic + float64 \<times> float64" where
  "ComputeIntersection s startPoint direction =
     (let oc = Sub startPoint (center s);
          a = Dot direction direction
      in if feq a (Fin 0) then Inl ComputeIntersection_Division_by_zero
         else
           let b = fmul (Fin 2) (Dot oc direction);
               c = fsub (Dot oc oc) (fmul (radius s) (radius s));
               discriminant = fsub (fmul b b) (fmul (fmul (Fin 4) a) c)
           in if flt discriminant (Fin 0) then Inr (Fin (- 1), Fin (- 1))
              else
                Inr (fdiv (fadd (fneg b) (fsqrt discriminant)) (fmul (Fin 2) a),
                     fdiv (fsub (fneg b) (fsqrt discriminant)) (fmul (Fin 2) a)))"

text \<open>The sphere \<open>FindClosest\<close> starts from, and returns when nothing is hit.\<close>

definition nullSphere :: Sphere where
  "nullSphere =
     \<lparr>radius = Fin 0, center = \<lparr>X = Fin 0, Y = Fin 0, Z = Fin 0\<rparr>,
      color = \<lparr>R = 0, G = 0, B = 0, A = 255\<rparr>, specular = Fin 0, reflective = Fin 0\<rparr>"

text \<open>
  The loop of \<open>FindClosest\<close> over the spheres, with the two variables it updates,
  \<open>closestSphere\<close> and \<open>closestT\<close>. A panic of \<open>ComputeIntersection\<close> ends it.
\<close>

fun FindClosest_loop ::
  "Vector3 \<Rightarrow> Vector3 \<Rightarrow> Sphere list \<Rightarrow> float64 \<Rightarrow> float64 \<Rightarrow> Sphere \<Rightarrow> float64 \<Rightarrow>
   panic + Sphere \<times> float64" where
  "FindClosest_loop startPoint direction [] tMin tMax closestSphere closestT =
     Inr (closestSphere, closestT)"
| "FindClosest_loop startPoint direction (sphere # rest) tMin tMax closestSphere closestT =
     (case ComputeIntersection sphere startPoint direction of
        Inl e \<Rightarrow> Inl e
      | Inr (t1, t2) \<Rightarrow>
          (let (closestSphere1, closestT1) =
                 (if fge t1 tMin \<and> fle t1 tMax \<and> flt t1 closestT then (sphere, t1)
                  else (closestSphere, closestT));
               (closestSphere2, closestT2) =
                 (if fge t2 tMin \<and> fle t2 tMax \<and> flt t2 closestT1 then (sphere, t2)
                  else (closestSphere1, closestT1))
           in FindClosest_loop startPoint direction rest tMin tMax closestSphere2 closestT2))"

definition FindClosest ::
  "Vector3 \<Rightarrow> Vector3 \<Rightarrow> Sphere list \<Rightarrow> float64 \<Rightarrow> float64 \<Rightarrow> panic + Sphere \<times> float64" where
  "FindClosest startPoint direction spheres tMin tMax =
     FindClosest_loop startPoint direction spheres tMin tMax nullSphere MaxFloat64"

section \<open>Lights\<close>

text \<open>
  \<open>LightType\<close> is a \<open>uint32\<close> with two named values. The \<open>switch\<close> of
  \<open>ComputeLighting\<close> has a case for each; any other value falls through it with the
  zero light direction and \<open>tMax = MaxFloat64\<close>.
\<close>

type_synonym LightType = "32 word"

definition Point :: LightType where
  "Point = 0"

definition Ambient :: LightType where
  "Ambient = 1"

record Light =
  lightType :: LightType
  position :: Vector3
  intensity :: float64

definition ReflectRay :: "Vector3 \<Rightarrow> Vector3 \<Rightarrow> Vector3" where
  "ReflectRay ray normal = Reflect normal (Negate ray)"

definition ComputeLighting ::
  "Light \<Rightarrow> Vector3 \<Rightarrow> Vector3 \<Rightarrow> Vector3 \<Rightarrow> float64 \<Rightarrow> Sphere list \<Rightarrow> panic + float64" where
  "ComputeLighting light point normal inverseDir specularExp spheres =
     (if lightType light = Ambient then Inr (intensity light)
      else
        let (lightDir, tMax) =
              (if lightType light = Point then (Sub (position light) point, Fin 1)
               else (\<lparr>X = Fin 0, Y = Fin 0, Z = Fin 0\<rparr>, MaxFloat64));
            tMin = Epsilon
        in case FindClosest point lightDir spheres tMin tMax of
             Inl e \<Rightarrow> Inl e
           | Inr (closestSphere, _) \<Rightarrow>
               if IsNull closestSphere then
                 let lightValue = fmax (Fin 0) (Dot lightDir normal);
                     resIntensity =
                       fadd (Fin 0)
                         (fdiv (fmul (intensity light) lightValue)
                            (fmul (Length point) (Length normal)))
                 in if fgt specularExp (Fin (- 1)) then
                      let reflectDir = ReflectRay lightDir normal;
                          specularValue = Dot reflectDir inverseDir;
                          reflectDirLenght = Length reflectDir;
                          inverseDirLenght = Length inverseDir
                      in if feq reflectDirLenght (Fin 0) \<or> feq inverseDirLenght (Fin 0)
                         then Inl ComputeLighting_Division_by_zero
                         else
                           Inr (fmax (Fin 0)
                                  (fadd resIntensity
                                     (fmul (intensity light)
                                        (fpow
                                           (fdiv (fmax (Fin 0) specularValue)
                                              (fmul (Length reflectDir) (Length inverseDir)))
                                           specularExp))))
                    else Inr (fmax (Fin 0) resIntensity)
               else Inr (fmax (Fin 0) (Fin 0)))"

section \<open>TraceRay\<close>

text \<open>The loop of \<open>TraceRay\<close> over the lights: \<open>lightVal += light.ComputeLighting(...)\<close>.\<close>

fun TraceRay_lights ::
  "Light list \<Rightarrow> Vector3 \<Rightarrow> Vector3 \<Rightarrow> Vector3 \<Rightarrow> float64 \<Rightarrow> Sphere list \<Rightarrow> float64 \<Rightarrow>
   panic + float64" where
  "TraceRay_lights [] point normal inverseDir specularExp spheres lightVal = Inr lightVal"
| "TraceRay_lights (light # rest) point normal inverseDir specularExp spheres lightVal =
     (case ComputeLighting light point normal inverseDir specularExp spheres of
        Inl e \<Rightarrow> Inl e
      | Inr v \<Rightarrow>
          TraceRay_lights rest point normal inverseDir specularExp spheres (fadd lightVal v))"

text \<open>
  The three channel assignments that scale a colour by a factor,
  \<open>c.R = uint8(float64(c.R) * k)\<close> and the same for G and B; alpha is not assigned.
\<close>

definition scaleColor :: "Color \<Rightarrow> float64 \<Rightarrow> Color" where
  "scaleColor c k =
     c\<lparr>R := uint8_of_float64 (fmul (float64_of_uint8 (R c)) k),
       G := uint8_of_float64 (fmul (float64_of_uint8 (G c)) k),
       B := uint8_of_float64 (fmul (float64_of_uint8 (B c)) k)\<rparr>"

text \<open>
  The three assignments of the blend,
  \<open>reflectedColor.R = uint8(float64(reflectedColor.R) * reflective) + localColor.R\<close>
  and the same for G and B, where \<open>localColor\<close> has been scaled by \<open>1 - reflective\<close>.
  The sum is a \<open>uint8\<close> sum and wraps.
\<close>

definition blendColor :: "Color \<Rightarrow> Color \<Rightarrow> Color" where
  "blendColor reflectedColor localColor =
     reflectedColor\<lparr>R := R reflectedColor + R localColor,
                    G := G reflectedColor + G localColor,
                    B := B reflectedColor + B localColor\<rparr>"

definition background :: Color where
  "background = \<lparr>R = 125, G = 125, B = 125, A = 255\<rparr>"

text \<open>
  \<open>TraceRay\<close> returns the lines it has printed together with its result: the colour,
  or the panic that ended the process. \<open>recursionDepth\<close> is an \<open>int8\<close>, read with
  \<open>sint\<close>.
\<close>

type_synonym int8 = "8 word"

lemma int8_decrement: "0 < sint (d :: int8) \<Longrightarrow> sint (d - 1) = sint d - 1"
proof -
  assume pos: "0 < sint d"
  have ub: "sint d < 2 ^ (LENGTH(8) - 1)" by (rule sint_lt)
  have "sint (d - 1) = signed_take_bit (LENGTH(8) - 1) (sint d - sint (1 :: int8))"
    by (rule sint_word_ariths)
  also have "\<dots> = signed_take_bit 7 (sint d - 1)" by simp
  also have "\<dots> = sint d - 1"
    using pos ub by (intro signed_take_bit_int_eq_self) simp_all
  finally show ?thesis .
qed

function TraceRay ::
  "Vector3 \<Rightarrow> Vector3 \<Rightarrow> Sphere list \<Rightarrow> Light list \<Rightarrow> int8 \<Rightarrow> float64 \<Rightarrow> float64 \<Rightarrow>
   string list \<times> (panic + Color)" where
  "TraceRay startPoint direction spheres lights recursionDepth tMin tMax =
     (let out = (if feq (Length direction) (Fin 0) then [''Warning: ray direction is zero'']
                 else [])
      in case FindClosest startPoint direction spheres tMin tMax of
           Inl e \<Rightarrow> (out, Inl e)
         | Inr (closestSphere, closestT) \<Rightarrow>
             (if IsNull closestSphere then (out, Inr background)
              else
                (let pointIntersect = Add startPoint (MulScalar direction closestT);
                     normal = Normalize (Sub pointIntersect (center closestSphere))
                 in case TraceRay_lights lights pointIntersect normal (Negate direction)
                          (specular closestSphere) spheres (Fin 0) of
                      Inl e \<Rightarrow> (out, Inl e)
                    | Inr lightSum \<Rightarrow>
                        (let lightVal = fmin MaxIntensity lightSum;
                             localColor = scaleColor (color closestSphere) lightVal
                         in if fle (reflective closestSphere) (Fin 0) \<or> sint recursionDepth \<le> 0
                            then (out, Inr localColor)
                            else
                              (let reflectedRay = ReflectRay (Negate direction) normal;
                                   (out', res) =
                                     TraceRay pointIntersect reflectedRay spheres lights
                                       (recursionDepth - 1) Epsilon tMax
                               in (out @ out',
                                   (case res of
                                      Inl e \<Rightarrow> Inl e
                                    | Inr reflectedColor \<Rightarrow>
                                        Inr (blendColor
                                               (scaleColor reflectedColor
                                                  (reflective closestSphere))
                                               (scaleColor localColor
                                                  (fsub (Fin 1)
                                                     (reflective closestSphere)))))))))))"
  by pat_completeness auto
termination
  by (relation "measure (\<lambda>(startPoint, direction, spheres, lights, recursionDepth, tMin, tMax).
        nat (sint recursionDepth))")
     (simp_all add: int8_decrement)

declare TraceRay.simps [simp del]

section \<open>Predicates of the statements\<close>

text \<open>
  The roots \<open>ComputeIntersection\<close> returns for a sphere, in the order \<open>FindClosest\<close>
  tests them (none when it panics).
\<close>

definition roots :: "Vector3 \<Rightarrow> Vector3 \<Rightarrow> Sphere \<Rightarrow> float64 list" where
  "roots startPoint direction s =
     (case ComputeIntersection s startPoint direction of
        Inl e \<Rightarrow> []
      | Inr (t1, t2) \<Rightarrow> [t1, t2])"

text \<open>\<open>t\<close> lies in the closed interval \<open>[tMin, tMax]\<close>, as \<open>FindClosest\<close> tests it.\<close>

definition in_interval :: "float64 \<Rightarrow> float64 \<Rightarrow> float64 \<Rightarrow> bool" where
  "in_interval tMin tMax t = (fge t tMin \<and> fle t tMax)"

text \<open>
  Inputs for the instances below: a red sphere and an ambient light with the values of the
  first sphere and the ambient light of \<open>main\<close> (the literals \<open>0.01\<close> and \<open>0.3\<close>
  taken as the reals they name).
\<close>

definition redSphere :: Sphere where
  "redSphere =
     \<lparr>radius = Fin 1, center = \<lparr>X = Fin 0, Y = Fin (- 1), Z = Fin 3\<rparr>,
      color = \<lparr>R = 255, G = 0, B = 0, A = 255\<rparr>, specular = Fin 100,
      reflective = Fin (1 / 100)\<rparr>"

definition ambientLight :: Light where
  "ambientLight =
     \<lparr>lightType = Ambient, position = \<lparr>X = Fin 0, Y = Fin 0, Z = Fin 0\<rparr>,
      intensity = Fin (3 / 10)\<rparr>"

definition vec :: "real \<Rightarrow> real \<Rightarrow> real \<Rightarrow> Vector3" where
  "vec x y z = \<lparr>X = Fin x, Y = Fin y, Z = Fin z\<rparr>"

text \<open>A point light of intensity 1 on the z axis.\<close>

definition unitLight :: Light where
  "unitLight = \<lparr>lightType = Point, position = vec 0 0 3, intensity = Fin 1\<rparr>"

text \<open>
  The terms of \<open>ComputeLighting\<close> for a point light: the diffuse term as the code adds
  it to \<open>resIntensity\<close>, the specular term as the code adds it, and the specular term
  as the specification words it, \<open>intensity * max(0, dot)^specularExponent / (|reflect| *
  |inverseView|)\<close>.
\<close>

definition diffuse :: "Light \<Rightarrow> Vector3 \<Rightarrow> Vector3 \<Rightarrow> float64" where
  "diffuse light point normal =
     fadd (Fin 0)
       (fdiv (fmul (intensity light) (fmax (Fin 0) (Dot (Sub (position light) point) normal)))
          (fmul (Length point) (Length normal)))"

definition specular_term :: "float64 \<Rightarrow> Vector3 \<Rightarrow> Vector3 \<Rightarrow> float64 \<Rightarrow> float64" where
  "specular_term i reflectDir inverseDir specularExp =
     fmul i
       (fpow (fdiv (fmax (Fin 0) (Dot reflectDir inverseDir))
                (fmul (Length reflectDir) (Length inverseDir)))
          specularExp)"

definition specular_as_claimed :: "float64 \<Rightarrow> Vector3 \<Rightarrow> Vector3 \<Rightarrow> float64 \<Rightarrow> float64" where
  "specular_as_claimed i reflectDir inverseDir specularExp =
     fdiv (fmul i (fpow (fmax (Fin 0) (Dot reflectDir inverseDir)) specularExp))
       (fmul (Length reflectDir) (Length inverseDir))"

text \<open>A sphere of radius 1 and a sphere of radius 0 at the world origin.\<close>

definition unitSphere :: Sphere where
  "unitSphere =
     \<lparr>radius = Fin 1, center = vec 0 0 0, color = \<lparr>R = 0, G = 0, B = 255, A = 255\<rparr>,
      specular = Fin 15, reflective = Fin (1 / 10)\<rparr>"


definition dotSphere :: Sphere where
  "dotSphere =
     \<lparr>radius = Fin 0, center = vec 0 0 0, color = \<lparr>R = 0, G = 255, B = 0, A = 255\<rparr>,
      specular = Fin 25, reflective = Fin (1 / 2)\<rparr>"

text \<open>
  The intersection point and the unit normal that \<open>TraceRay\<close> computes for a hit, and the
  alpha channel of its result.
\<close>

definition hitPoint :: "Vector3 \<Rightarrow> Vector3 \<Rightarrow> float64 \<Rightarrow> Vector3" where
  "hitPoint startPoint direction closestT = Add startPoint (MulScalar direction closestT)"

definition hitNormal :: "Vector3 \<Rightarrow> Vector3 \<Rightarrow> Sphere \<Rightarrow> float64 \<Rightarrow> Vector3" where
  "hitNormal startPoint direction closestSphere closestT =
     Normalize (Sub (hitPoint startPoint direction closestT) (center closestSphere))"

definition alpha :: "panic + Color \<Rightarrow> panic + uint8" where
  "alpha res = (case res of Inl e \<Rightarrow> Inl e | Inr c \<Rightarrow> Inr (A c))"

text \<open>The red sphere with the reflective coefficients 0 and 1.\<close>

definition matteSphere :: Sphere where
  "matteSphere = redSphere\<lparr>reflective := Fin 0\<rparr>"

definition mirrorSphere :: Sphere where
  "mirrorSphere = redSphere\<lparr>reflective := Fin 1\<rparr>"

text \<open>
  What \<open>TraceRay\<close> computes before its test of \<open>reflective\<close> and
  \<open>recursionDepth\<close>: the warning, the closest hit, the background on a miss, and the
  locally shaded colour. It has no recursive call.
\<close>

definition TraceRay_local ::
  "Vector3 \<Rightarrow> Vector3 \<Rightarrow> Sphere list \<Rightarrow> Light list \<Rightarrow> float64 \<Rightarrow> float64 \<Rightarrow>
   string list \<times> (panic + Color)" where
  "TraceRay_local startPoint direction spheres lights tMin tMax =
     (let out = (if feq (Length direction) (Fin 0) then [''Warning: ray direction is zero'']
                 else [])
      in case FindClosest startPoint direction spheres tMin tMax of
           Inl e \<Rightarrow> (out, Inl e)
         | Inr (closestSphere, closestT) \<Rightarrow>
             (if IsNull closestSphere then (out, Inr background)
              else
                (case TraceRay_lights lights (hitPoint startPoint direction closestT)
                        (hitNormal startPoint direction closestSphere closestT)
                        (Negate direction) (specular closestSphere) spheres (Fin 0) of
                   Inl e \<Rightarrow> (out, Inl e)
                 | Inr lightSum \<Rightarrow>
                     (out, Inr (scaleColor (color closestSphere)
                                  (fmin MaxIntensity lightSum))))))"

section \<open>The comparisons of float64\<close>

lemma flt_not_NaN: "flt a b \<Longrightarrow> a \<noteq> NaN \<and> b \<noteq> NaN"
  by (cases a; cases b) simp_all

lemma fle_not_NaN: "fle a b \<Longrightarrow> a \<noteq> NaN \<and> b \<noteq> NaN"
  by (cases a; cases b) (simp_all add: fle_def)

lemma flt_irrefl: "\<not> flt a a"
  by (cases a) simp_all

lemma flt_trans: "flt a b \<Longrightarrow> flt b c \<Longrightarrow> flt a c"
  by (cases a; cases b; cases c) simp_all

lemma flt_fle_trans: "flt a b \<Longrightarrow> fle b c \<Longrightarrow> flt a c"
  by (cases a; cases b; cases c) (auto simp: fle_def)

lemma fle_flt_trans: "fle a b \<Longrightarrow> flt b c \<Longrightarrow> flt a c"
  by (cases a; cases b; cases c) (auto simp: fle_def)

lemma flt_imp_fle: "flt a b \<Longrightarrow> fle a b"
  by (simp add: fle_def)

lemma fle_refl: "a \<noteq> NaN \<Longrightarrow> fle a a"
  by (cases a) (simp_all add: fle_def)

lemma not_flt_fle: "a \<noteq> NaN \<Longrightarrow> b \<noteq> NaN \<Longrightarrow> \<not> flt a b \<Longrightarrow> fle b a"
  by (cases a; cases b) (auto simp: fle_def)

lemma in_interval_not_NaN: "in_interval tMin tMax t \<Longrightarrow> t \<noteq> NaN"
  by (auto simp: in_interval_def dest: fle_not_NaN)

section \<open>Zero-length directions\<close>

lemma fsqrt_zero_iff: "feq (fsqrt x) (Fin 0) = feq x (Fin 0)"
  by (cases x) auto

lemma Length_zero_iff: "feq (Length v) (Fin 0) = feq (Dot v v) (Fin 0)"
  by (simp add: Length_def Dot_def fsqrt_zero_iff)

lemma ComputeIntersection_panics:
  "feq (Dot direction direction) (Fin 0) \<Longrightarrow>
   ComputeIntersection s startPoint direction = Inl ComputeIntersection_Division_by_zero"
  by (simp add: ComputeIntersection_def)

lemma ComputeIntersection_returns:
  "\<not> feq (Dot direction direction) (Fin 0) \<Longrightarrow>
   \<exists>t1 t2. ComputeIntersection s startPoint direction = Inr (t1, t2)"
  by (simp add: ComputeIntersection_def Let_def)

lemma FindClosest_loop_panics:
  "feq (Dot direction direction) (Fin 0) \<Longrightarrow>
   FindClosest_loop startPoint direction (s # rest) tMin tMax closestSphere closestT =
     Inl ComputeIntersection_Division_by_zero"
  by (simp add: ComputeIntersection_panics)

lemma IsNull_nullSphere: "IsNull nullSphere"
  by (simp add: IsNull_def nullSphere_def Length_def fsub_def fle_def Epsilon_def)

section \<open>Rays that miss\<close>





section \<open>A zero-length direction\<close>

lemma FindClosest_zero_direction:
  "feq (Length direction) (Fin 0) \<Longrightarrow>
   FindClosest startPoint direction spheres tMin tMax =
     (if spheres = [] then Inr (nullSphere, MaxFloat64)
      else Inl ComputeIntersection_Division_by_zero)"
  by (cases spheres) (simp_all add: FindClosest_def ComputeIntersection_panics Length_zero_iff)

text \<open>
  C2, as the code has it. With a direction of length 0, \<open>TraceRay\<close> prints the warning
  and goes on to \<open>FindClosest\<close>. Only with no sphere in the scene does it return a
  colour, the background; with any sphere in the scene the first call of
  \<open>ComputeIntersection\<close> panics and the process ends.
\<close>

theorem TraceRay_zero_direction:
  assumes "feq (Length direction) (Fin 0)"
  shows "TraceRay startPoint direction spheres lights recursionDepth tMin tMax =
           ([''Warning: ray direction is zero''],
            if spheres = [] then Inr background
            else Inl ComputeIntersection_Division_by_zero)"
  using assms
  by (simp add: TraceRay.simps FindClosest_zero_direction IsNull_nullSphere)

theorem TraceRay_zero_direction_witness:
  "feq (Length (vec 0 0 0)) (Fin 0) \<and>
   TraceRay (vec 0 0 0) (vec 0 0 0) [] [ambientLight] 3 (Fin 1) MaxFloat64 =
     ([''Warning: ray direction is zero''], Inr background)"
proof -
  have z: "feq (Length (vec 0 0 0)) (Fin 0)"
    by (simp add: Length_def vec_def)
  from TraceRay_zero_direction [OF z, of "vec 0 0 0" "[]" "[ambientLight]" 3 "Fin 1" MaxFloat64] z
  show ?thesis by simp
qed

text \<open>
  The claim as stated fails on the scene of one sphere: the zero direction from the origin
  prints the warning and then panics, and no colour is returned.
\<close>

theorem TraceRay_zero_direction_panics:
  "TraceRay (vec 0 0 0) (vec 0 0 0) [redSphere] [ambientLight] 3 (Fin 1) MaxFloat64 =
     ([''Warning: ray direction is zero''], Inl ComputeIntersection_Division_by_zero)"
  by (simp add: TraceRay.simps FindClosest_def ComputeIntersection_def Length_def Dot_def vec_def)

section \<open>The clamp of ComputeLighting\<close>

lemma fmax_zero_cases: "fmax (Fin 0) x = NaN \<or> fle (Fin 0) (fmax (Fin 0) x)"
  by (cases x) (auto simp: fmax_def fle_def)

lemma fle_zero_not_negative: "r = NaN \<or> fle (Fin 0) r \<Longrightarrow> \<not> flt r (Fin 0)"
  by (cases r) (auto simp: fle_def)

lemma ComputeLighting_is_fmax:
  "lightType light \<noteq> Ambient \<Longrightarrow>
   ComputeLighting light point normal inverseDir specularExp spheres = Inr r \<Longrightarrow>
   \<exists>x. r = fmax (Fin 0) x"
  by (auto simp: ComputeLighting_def Let_def split: if_splits sum.splits prod.splits)

text \<open>
  C4, as the code has it. An ambient light returns its intensity as it is, before the
  clamp, so the result is negative when the intensity is. For every other light, whenever
  \<open>ComputeLighting\<close> returns, the value went through \<open>math.Max(0, _)\<close>: it is never
  below 0 (it is NaN, or at least 0).
\<close>

theorem ComputeLighting_clamped:
  "(lightType light = Ambient \<longrightarrow>
      ComputeLighting light point normal inverseDir specularExp spheres = Inr (intensity light)) \<and>
   (lightType light \<noteq> Ambient \<longrightarrow>
      ComputeLighting light point normal inverseDir specularExp spheres = Inr r \<longrightarrow>
      \<not> flt r (Fin 0) \<and> (r = NaN \<or> fle (Fin 0) r))"
proof (intro conjI impI)
  assume "lightType light = Ambient"
  then show "ComputeLighting light point normal inverseDir specularExp spheres =
    Inr (intensity light)"
    by (simp add: ComputeLighting_def)
next
  assume na: "lightType light \<noteq> Ambient"
    and r: "ComputeLighting light point normal inverseDir specularExp spheres = Inr r"
  from ComputeLighting_is_fmax [OF na r] obtain x where "r = fmax (Fin 0) x" ..
  then show c: "r = NaN \<or> fle (Fin 0) r" using fmax_zero_cases [of x] by simp
  then show "\<not> flt r (Fin 0)" by (rule fle_zero_not_negative)
qed

theorem ComputeLighting_clamped_witness:
  "lightType ambientLight = Ambient \<and>
   ComputeLighting ambientLight (vec 0 0 1) (vec 0 0 1) (vec 0 0 1) (Fin (- 1)) [] =
     Inr (Fin (3 / 10)) \<and>
   lightType unitLight \<noteq> Ambient \<and>
   ComputeLighting unitLight (vec 0 0 1) (vec 0 0 1) (vec 0 0 1) (Fin (- 1)) [] = Inr (Fin 2) \<and>
   \<not> flt (Fin 2) (Fin 0)"
proof -
  have a: "lightType ambientLight = Ambient"
    by (simp add: ambientLight_def)
  have p: "lightType unitLight \<noteq> Ambient"
    by (simp add: unitLight_def Point_def Ambient_def)
  have v: "ComputeLighting unitLight (vec 0 0 1) (vec 0 0 1) (vec 0 0 1) (Fin (- 1)) [] =
      Inr (Fin 2)"
    by (simp add: ComputeLighting_def unitLight_def Point_def Ambient_def vec_def Sub_def
        fsub_def FindClosest_def IsNull_nullSphere Dot_def Length_def fmax_def fgt_def)
  from ComputeLighting_clamped
    [of ambientLight "vec 0 0 1" "vec 0 0 1" "vec 0 0 1" "Fin (- 1)" "[]" "Fin 2"] a
  have "ComputeLighting ambientLight (vec 0 0 1) (vec 0 0 1) (vec 0 0 1) (Fin (- 1)) [] =
      Inr (Fin (3 / 10))"
    by (simp add: ambientLight_def)
  moreover from ComputeLighting_clamped
    [of unitLight "vec 0 0 1" "vec 0 0 1" "vec 0 0 1" "Fin (- 1)" "[]" "Fin 2"] p v
  have "\<not> flt (Fin 2) (Fin 0)" by blast
  ultimately show ?thesis using a p v by blast
qed

text \<open>
  The claim as stated fails on an ambient light of intensity \<open>-1\<close>: the value returned is
  \<open>-1\<close>, below 0.
\<close>

theorem ComputeLighting_ambient_negative:
  "ComputeLighting \<lparr>lightType = Ambient, position = vec 0 0 0, intensity = Fin (- 1)\<rparr>
     (vec 0 0 1) (vec 0 0 1) (vec 0 0 1) (Fin (- 1)) [] = Inr (Fin (- 1)) \<and>
   flt (Fin (- 1)) (Fin 0)"
  by (simp add: ComputeLighting_def)

text \<open>
  C9. The diffuse term divides by \<open>|point| * |normal|\<close> with no test of the divisor.
  For the point light \<open>unitLight\<close> and an empty scene (nothing occludes), with the specular
  term disabled: at the world origin as surface point the result is \<open>+Inf\<close>, and with the
  zero normal it is NaN; both are returned, no panic. The specular branch, in contrast,
  panics on the zero inverse view direction.
\<close>

theorem ComputeLighting_diffuse_unguarded:
  "ComputeLighting unitLight (vec 0 0 0) (vec 0 0 1) (vec 0 0 1) (Fin (- 1)) [] = Inr PInf \<and>
   ComputeLighting unitLight (vec 0 0 1) (vec 0 0 0) (vec 0 0 1) (Fin (- 1)) [] = Inr NaN \<and>
   ComputeLighting unitLight (vec 0 0 1) (vec 0 0 1) (vec 0 0 0) (Fin 1) [] =
     Inl ComputeLighting_Division_by_zero"
  by (simp add: ComputeLighting_def unitLight_def Point_def Ambient_def vec_def Sub_def fsub_def
      FindClosest_def IsNull_nullSphere Dot_def Length_def fmax_def fgt_def inf_of_sign_def
      ReflectRay_def Reflect_def Negate_def)

section \<open>What FindClosest returns\<close>

lemma roots_returns:
  "ComputeIntersection s startPoint direction = Inr (t1, t2) \<Longrightarrow>
   roots startPoint direction s = [t1, t2]"
  by (simp add: roots_def)

lemma FindClosest_loop_spec:
  assumes nz: "\<not> feq (Dot direction direction) (Fin 0)"
  shows "\<exists>s t. FindClosest_loop startPoint direction spheres tMin tMax closestSphere closestT =
            Inr (s, t) \<and>
          ((s = closestSphere \<and> t = closestT \<and>
            (\<forall>x \<in> set spheres. \<forall>t' \<in> set (roots startPoint direction x).
               in_interval tMin tMax t' \<longrightarrow> \<not> flt t' closestT)) \<or>
           (\<exists>pre post. spheres = pre @ s # post \<and>
              t \<in> set (roots startPoint direction s) \<and> in_interval tMin tMax t \<and>
              flt t closestT \<and>
              (\<forall>x \<in> set pre. \<forall>t' \<in> set (roots startPoint direction x).
                 in_interval tMin tMax t' \<longrightarrow> flt t t') \<and>
              (\<forall>x \<in> set (s # post). \<forall>t' \<in> set (roots startPoint direction x).
                 in_interval tMin tMax t' \<longrightarrow> fle t t')))"
proof (induction spheres arbitrary: closestSphere closestT)
  case Nil
  show ?case by simp
next
  case (Cons x rest)
  let ?Q = "in_interval tMin tMax"
  let ?roots = "roots startPoint direction"
  from ComputeIntersection_returns [OF nz] obtain t1 t2 where
    ci: "ComputeIntersection x startPoint direction = Inr (t1, t2)" by blast
  then have rx: "?roots x = [t1, t2]" by (rule roots_returns)
  define sel1 where "sel1 = (?Q t1 \<and> flt t1 closestT)"
  define cs1 where "cs1 = (if sel1 then x else closestSphere)"
  define ct1 where "ct1 = (if sel1 then t1 else closestT)"
  define sel2 where "sel2 = (?Q t2 \<and> flt t2 ct1)"
  define cs2 where "cs2 = (if sel2 then x else cs1)"
  define ct2 where "ct2 = (if sel2 then t2 else ct1)"
  have step: "FindClosest_loop startPoint direction (x # rest) tMin tMax closestSphere closestT =
      FindClosest_loop startPoint direction rest tMin tMax cs2 ct2"
    by (simp add: ci cs2_def ct2_def sel2_def cs1_def ct1_def sel1_def in_interval_def)
  have mono1: "flt u closestT" if "flt u ct1" for u
    using that by (auto simp: ct1_def sel1_def intro: flt_trans split: if_splits)
  have mono: "flt u closestT" if "flt u ct2" for u
    using that mono1 by (auto simp: ct2_def sel2_def intro: flt_trans split: if_splits)
  have low1: "flt u t1" if "?Q t1" "flt u ct1" for u
  proof (cases sel1)
    case True
    with that show ?thesis by (simp add: ct1_def)
  next
    case False
    with that have "\<not> flt t1 closestT" "flt u closestT" by (simp_all add: sel1_def ct1_def)
    moreover from this that have "fle closestT t1"
      by (intro not_flt_fle) (auto dest: flt_not_NaN in_interval_not_NaN)
    ultimately show ?thesis by (blast intro: flt_fle_trans)
  qed
  have low2: "flt u t2" if "?Q t2" "flt u ct2" for u
  proof (cases sel2)
    case True
    with that show ?thesis by (simp add: ct2_def)
  next
    case False
    with that have "\<not> flt t2 ct1" "flt u ct1" by (simp_all add: sel2_def ct2_def)
    moreover from this that have "fle ct1 t2"
      by (intro not_flt_fle) (auto dest: flt_not_NaN in_interval_not_NaN)
    ultimately show ?thesis by (blast intro: flt_fle_trans)
  qed
  have low: "flt u t'" if "t' \<in> set (?roots x)" "?Q t'" "flt u ct2" for u t'
  proof -
    from that(1) consider "t' = t1" | "t' = t2" by (auto simp: rx)
    then show ?thesis
    proof cases
      case 1
      have "flt u ct1" using that(3) by (auto simp: ct2_def sel2_def intro: flt_trans split: if_splits)
      with that 1 show ?thesis by (simp add: low1)
    next
      case 2
      with that show ?thesis by (simp add: low2)
    qed
  qed
  have sel: "(cs2 = closestSphere \<and> ct2 = closestT) \<or>
             (cs2 = x \<and> ct2 \<in> set (?roots x) \<and> ?Q ct2 \<and> flt ct2 closestT)"
  proof (cases sel2)
    case True
    then have "flt t2 ct1" by (simp add: sel2_def)
    then have "flt t2 closestT" by (rule mono1)
    with True show ?thesis by (simp add: cs2_def ct2_def sel2_def rx)
  next
    case False
    then show ?thesis by (auto simp: cs2_def ct2_def cs1_def ct1_def sel1_def rx)
  qed
  have notbelow: "\<not> flt t' ct2" if "t' \<in> set (?roots x)" "?Q t'" for t'
    using low [OF that] flt_irrefl by blast
  from Cons.IH [of cs2 ct2] obtain s t where
    res: "FindClosest_loop startPoint direction rest tMin tMax cs2 ct2 = Inr (s, t)" and
    alt: "(s = cs2 \<and> t = ct2 \<and>
            (\<forall>x \<in> set rest. \<forall>t' \<in> set (?roots x). ?Q t' \<longrightarrow> \<not> flt t' ct2)) \<or>
          (\<exists>pre post. rest = pre @ s # post \<and> t \<in> set (?roots s) \<and> ?Q t \<and> flt t ct2 \<and>
             (\<forall>x \<in> set pre. \<forall>t' \<in> set (?roots x). ?Q t' \<longrightarrow> flt t t') \<and>
             (\<forall>x \<in> set (s # post). \<forall>t' \<in> set (?roots x). ?Q t' \<longrightarrow> fle t t'))"
    by blast
  from alt show ?case
  proof (elim disjE conjE exE)
    assume kept: "s = cs2" "t = ct2"
      and later: "\<forall>x \<in> set rest. \<forall>t' \<in> set (?roots x). ?Q t' \<longrightarrow> \<not> flt t' ct2"
    from sel show ?thesis
    proof (elim disjE conjE)
      assume same: "cs2 = closestSphere" "ct2 = closestT"
      with kept later notbelow have
        "s = closestSphere \<and> t = closestT \<and>
         (\<forall>y \<in> set (x # rest). \<forall>t' \<in> set (?roots y). ?Q t' \<longrightarrow> \<not> flt t' closestT)"
        by auto
      with step res show ?thesis by auto
    next
      assume new: "cs2 = x" "ct2 \<in> set (?roots x)" "?Q ct2" "flt ct2 closestT"
      have min: "fle ct2 t'" if "y \<in> set (x # rest)" "t' \<in> set (?roots y)" "?Q t'" for y t'
      proof -
        have "\<not> flt t' ct2" using that later notbelow by auto
        with that(3) new(3) show ?thesis
          by (intro not_flt_fle) (auto dest: in_interval_not_NaN)
      qed
      have "x # rest = [] @ s # rest \<and> t \<in> set (?roots s) \<and> ?Q t \<and> flt t closestT \<and>
            (\<forall>y \<in> set []. \<forall>t' \<in> set (?roots y). ?Q t' \<longrightarrow> flt t t') \<and>
            (\<forall>y \<in> set (s # rest). \<forall>t' \<in> set (?roots y). ?Q t' \<longrightarrow> fle t t')"
        using kept new min by auto
      then have "\<exists>pre post. x # rest = pre @ s # post \<and> t \<in> set (?roots s) \<and> ?Q t \<and>
            flt t closestT \<and>
            (\<forall>y \<in> set pre. \<forall>t' \<in> set (?roots y). ?Q t' \<longrightarrow> flt t t') \<and>
            (\<forall>y \<in> set (s # post). \<forall>t' \<in> set (?roots y). ?Q t' \<longrightarrow> fle t t')"
        by (intro exI)
      with step res show ?thesis by (intro exI [of _ s] exI [of _ t]) (simp only: simp_thms)
    qed
  next
    fix pre post
    assume found: "rest = pre @ s # post" "t \<in> set (?roots s)" "?Q t" "flt t ct2"
      and before: "\<forall>x \<in> set pre. \<forall>t' \<in> set (?roots x). ?Q t' \<longrightarrow> flt t t'"
      and after: "\<forall>x \<in> set (s # post). \<forall>t' \<in> set (?roots x). ?Q t' \<longrightarrow> fle t t'"
    have "x # rest = (x # pre) @ s # post \<and> t \<in> set (?roots s) \<and> ?Q t \<and> flt t closestT \<and>
          (\<forall>y \<in> set (x # pre). \<forall>t' \<in> set (?roots y). ?Q t' \<longrightarrow> flt t t') \<and>
          (\<forall>y \<in> set (s # post). \<forall>t' \<in> set (?roots y). ?Q t' \<longrightarrow> fle t t')"
      using found before after mono low by auto
    then have "\<exists>pre post. x # rest = pre @ s # post \<and> t \<in> set (?roots s) \<and> ?Q t \<and>
          flt t closestT \<and>
          (\<forall>y \<in> set pre. \<forall>t' \<in> set (?roots y). ?Q t' \<longrightarrow> flt t t') \<and>
          (\<forall>y \<in> set (s # post). \<forall>t' \<in> set (?roots y). ?Q t' \<longrightarrow> fle t t')"
      by (intro exI)
    with step res show ?thesis by (intro exI [of _ s] exI [of _ t]) (simp only: simp_thms)
  qed
qed

text \<open>
  C1, as the code has it. When the scene is empty or the direction is not of length 0,
  \<open>FindClosest\<close> returns. If no root of any sphere lies in \<open>[tMin, tMax]\<close> and below
  \<open>MaxFloat64\<close> (the initial \<open>closestT\<close>, compared strictly), the result is the null
  sphere with \<open>MaxFloat64\<close>. Otherwise it is a sphere \<open>s\<close> of the scene with one of
  its roots \<open>t\<close>, in the interval, that is at most every root in the interval of every
  sphere, and strictly below every such root of the spheres before \<open>s\<close> in scene order:
  the first sphere wins a tie.
\<close>

theorem FindClosest_closest:
  assumes "spheres = [] \<or> \<not> feq (Length direction) (Fin 0)"
  shows "\<exists>s t. FindClosest startPoint direction spheres tMin tMax = Inr (s, t) \<and>
          (if \<forall>x \<in> set spheres. \<forall>t' \<in> set (roots startPoint direction x).
                \<not> (in_interval tMin tMax t' \<and> flt t' MaxFloat64)
           then s = nullSphere \<and> t = MaxFloat64
           else \<exists>pre post. spheres = pre @ s # post \<and>
                  t \<in> set (roots startPoint direction s) \<and> in_interval tMin tMax t \<and>
                  flt t MaxFloat64 \<and>
                  (\<forall>x \<in> set pre. \<forall>t' \<in> set (roots startPoint direction x).
                     in_interval tMin tMax t' \<longrightarrow> flt t t') \<and>
                  (\<forall>x \<in> set (s # post). \<forall>t' \<in> set (roots startPoint direction x).
                     in_interval tMin tMax t' \<longrightarrow> fle t t'))"
proof (cases "spheres = []")
  case True
  then show ?thesis by (simp add: FindClosest_def)
next
  case False
  with assms have nz: "\<not> feq (Dot direction direction) (Fin 0)"
    by (simp add: Length_zero_iff)
  let ?Q = "in_interval tMin tMax"
  let ?roots = "roots startPoint direction"
  from FindClosest_loop_spec [OF nz, of startPoint spheres tMin tMax nullSphere MaxFloat64]
  obtain s t where
    res: "FindClosest startPoint direction spheres tMin tMax = Inr (s, t)" and
    alt: "(s = nullSphere \<and> t = MaxFloat64 \<and>
            (\<forall>x \<in> set spheres. \<forall>t' \<in> set (?roots x). ?Q t' \<longrightarrow> \<not> flt t' MaxFloat64)) \<or>
          (\<exists>pre post. spheres = pre @ s # post \<and> t \<in> set (?roots s) \<and> ?Q t \<and>
             flt t MaxFloat64 \<and>
             (\<forall>x \<in> set pre. \<forall>t' \<in> set (?roots x). ?Q t' \<longrightarrow> flt t t') \<and>
             (\<forall>x \<in> set (s # post). \<forall>t' \<in> set (?roots x). ?Q t' \<longrightarrow> fle t t'))"
    unfolding FindClosest_def by blast
  from alt show ?thesis
  proof
    assume "s = nullSphere \<and> t = MaxFloat64 \<and>
      (\<forall>x \<in> set spheres. \<forall>t' \<in> set (?roots x). ?Q t' \<longrightarrow> \<not> flt t' MaxFloat64)"
    with res show ?thesis by auto
  next
    assume found: "\<exists>pre post. spheres = pre @ s # post \<and> t \<in> set (?roots s) \<and> ?Q t \<and>
      flt t MaxFloat64 \<and>
      (\<forall>x \<in> set pre. \<forall>t' \<in> set (?roots x). ?Q t' \<longrightarrow> flt t t') \<and>
      (\<forall>x \<in> set (s # post). \<forall>t' \<in> set (?roots x). ?Q t' \<longrightarrow> fle t t')"
    then have "s \<in> set spheres" "t \<in> set (?roots s)" "?Q t" "flt t MaxFloat64" by auto
    then have "\<not> (\<forall>x \<in> set spheres. \<forall>t' \<in> set (?roots x). \<not> (?Q t' \<and> flt t' MaxFloat64))"
      by blast
    with res found show ?thesis by (intro exI [of _ s] exI [of _ t]) (simp only: simp_thms if_False)
  qed
qed

theorem FindClosest_closest_witness:
  "\<not> feq (Length (vec 0 0 1)) (Fin 0) \<and>
   FindClosest (vec 0 (- 1) 0) (vec 0 0 1) [redSphere, redSphere\<lparr>reflective := Fin 0\<rparr>]
     (Fin 1) MaxFloat64 = Inr (redSphere, Fin 2)"
proof -
  let ?twin = "redSphere\<lparr>reflective := Fin 0\<rparr>"
  have nz: "\<not> feq (Length (vec 0 0 1)) (Fin 0)"
    by (simp add: Length_def vec_def)
  then have h: "[redSphere, ?twin] = [] \<or> \<not> feq (Length (vec 0 0 1)) (Fin 0)"
    by simp
  have r: "roots (vec 0 (- 1) 0) (vec 0 0 1) redSphere = [Fin 4, Fin 2]"
    "roots (vec 0 (- 1) 0) (vec 0 0 1) ?twin = [Fin 4, Fin 2]"
    by (simp_all add: roots_def ComputeIntersection_def Dot_def Sub_def vec_def redSphere_def
        fsub_def)
  have ne: "redSphere \<noteq> ?twin"
    by (simp add: redSphere_def)
  from FindClosest_closest [OF h, of "vec 0 (- 1) 0" "Fin 1" MaxFloat64]
  have "FindClosest (vec 0 (- 1) 0) (vec 0 0 1) [redSphere, ?twin] (Fin 1) MaxFloat64 =
      Inr (redSphere, Fin 2)"
    by (auto simp: r in_interval_def fge_def fle_def MaxFloat64_def Cons_eq_append_conv
        append_eq_Cons_conv)
  with nz show ?thesis by simp
qed

text \<open>
  The claim as stated fails on the zero direction with a sphere in the scene:
  \<open>FindClosest\<close> panics in \<open>ComputeIntersection\<close> and returns nothing.
\<close>

theorem FindClosest_zero_direction_panics:
  "FindClosest (vec 0 0 0) (vec 0 0 0) [redSphere] (Fin 1) MaxFloat64 =
     Inl ComputeIntersection_Division_by_zero"
  by (simp add: FindClosest_def ComputeIntersection_def Dot_def vec_def)

text \<open>
  A root in the interval that is not below \<open>MaxFloat64\<close> is not taken: a sphere of
  infinite radius has the root \<open>+Inf\<close>, which lies in \<open>[1, +Inf]\<close>, and the result
  is the null sphere.
\<close>

lemma FindClosest_root_not_below_MaxFloat64:
  "roots (vec 0 0 0) (vec 0 0 1) (redSphere\<lparr>radius := PInf\<rparr>) = [PInf, NInf] \<and>
   in_interval (Fin 1) PInf PInf \<and>
   FindClosest (vec 0 0 0) (vec 0 0 1) [redSphere\<lparr>radius := PInf\<rparr>] (Fin 1) PInf =
     Inr (nullSphere, MaxFloat64)"
  by (simp add: roots_def FindClosest_def ComputeIntersection_def Dot_def Sub_def vec_def
      redSphere_def fsub_def inf_of_sign_def in_interval_def fge_def fle_def MaxFloat64_def)

section \<open>Shadows\<close>

lemma roots_nonempty_direction:
  assumes "t \<in> set (roots startPoint direction s)"
  shows "\<not> feq (Dot direction direction) (Fin 0)"
proof
  assume "feq (Dot direction direction) (Fin 0)"
  then have "roots startPoint direction s = []"
    by (simp add: roots_def ComputeIntersection_panics)
  with assms show False by simp
qed

lemma one_below_MaxFloat64: "flt (Fin 1) MaxFloat64"
  by (simp add: MaxFloat64_def)

lemma FindClosest_blocked:
  assumes s: "s \<in> set spheres"
      and t: "t \<in> set (roots startPoint direction s)"
      and lo: "fge t tMin" and hi: "fle t tMax" and below: "flt t MaxFloat64"
  shows "\<exists>s' t'. FindClosest startPoint direction spheres tMin tMax = Inr (s', t') \<and>
           s' \<in> set spheres"
proof -
  from t have nz: "\<not> feq (Dot direction direction) (Fin 0)"
    by (rule roots_nonempty_direction)
  from lo hi have q: "in_interval tMin tMax t" by (simp add: in_interval_def)
  from FindClosest_loop_spec [OF nz, of startPoint spheres tMin tMax nullSphere MaxFloat64]
  obtain s' t' where
    res: "FindClosest startPoint direction spheres tMin tMax = Inr (s', t')" and
    alt: "(s' = nullSphere \<and> t' = MaxFloat64 \<and>
            (\<forall>x \<in> set spheres. \<forall>u \<in> set (roots startPoint direction x).
               in_interval tMin tMax u \<longrightarrow> \<not> flt u MaxFloat64)) \<or>
          (\<exists>pre post. spheres = pre @ s' # post \<and>
             t' \<in> set (roots startPoint direction s') \<and> in_interval tMin tMax t' \<and>
             flt t' MaxFloat64 \<and>
             (\<forall>x \<in> set pre. \<forall>u \<in> set (roots startPoint direction x).
                in_interval tMin tMax u \<longrightarrow> flt t' u) \<and>
             (\<forall>x \<in> set (s' # post). \<forall>u \<in> set (roots startPoint direction x).
                in_interval tMin tMax u \<longrightarrow> fle t' u))"
    unfolding FindClosest_def by blast
  from alt have "s' \<in> set spheres"
  proof
    assume "s' = nullSphere \<and> t' = MaxFloat64 \<and>
      (\<forall>x \<in> set spheres. \<forall>u \<in> set (roots startPoint direction x).
         in_interval tMin tMax u \<longrightarrow> \<not> flt u MaxFloat64)"
    with s t q below show ?thesis by blast
  next
    assume "\<exists>pre post. spheres = pre @ s' # post \<and>
      t' \<in> set (roots startPoint direction s') \<and> in_interval tMin tMax t' \<and>
      flt t' MaxFloat64 \<and>
      (\<forall>x \<in> set pre. \<forall>u \<in> set (roots startPoint direction x).
         in_interval tMin tMax u \<longrightarrow> flt t' u) \<and>
      (\<forall>x \<in> set (s' # post). \<forall>u \<in> set (roots startPoint direction x).
         in_interval tMin tMax u \<longrightarrow> fle t' u)"
    then show ?thesis by auto
  qed
  with res show ?thesis by blast
qed

text \<open>
  C5, as the code has it. Let the shadow ray of a point light, from the surface point
  towards the light, have a root of some sphere in \<open>(Epsilon, 1]\<close>. Then \<open>FindClosest\<close>
  returns a sphere of the scene, and \<open>ComputeLighting\<close> returns exactly 0 when that sphere
  is not one \<open>IsNull\<close> takes for the null sphere; so it does whenever no sphere of the
  scene is taken for the null sphere.
\<close>

theorem ComputeLighting_shadow:
  assumes "lightType light = Point"
      and "s \<in> set spheres"
      and "t \<in> set (roots point (Sub (position light) point) s)"
      and "flt Epsilon t" and "fle t (Fin 1)"
  shows "(\<exists>s' t'. FindClosest point (Sub (position light) point) spheres Epsilon (Fin 1) =
              Inr (s', t') \<and> s' \<in> set spheres \<and>
            (\<not> IsNull s' \<longrightarrow>
               ComputeLighting light point normal inverseDir specularExp spheres = Inr (Fin 0))) \<and>
         ((\<forall>x \<in> set spheres. \<not> IsNull x) \<longrightarrow>
            ComputeLighting light point normal inverseDir specularExp spheres = Inr (Fin 0))"
proof -
  from assms(4) have lo: "fge t Epsilon" by (simp add: fge_def fle_def)
  from assms(5) have below: "flt t MaxFloat64"
    using one_below_MaxFloat64 by (rule fle_flt_trans)
  from FindClosest_blocked [OF assms(2,3) lo assms(5) below] obtain s' t' where
    res: "FindClosest point (Sub (position light) point) spheres Epsilon (Fin 1) = Inr (s', t')"
    and mem: "s' \<in> set spheres" by blast
  have dark: "ComputeLighting light point normal inverseDir specularExp spheres = Inr (Fin 0)"
    if "\<not> IsNull s'"
    using that res assms(1) by (simp add: ComputeLighting_def Point_def Ambient_def fmax_def)
  with res mem show ?thesis by blast
qed

lemma sqrt_144: "sqrt 144 = 12"
  by (rule real_sqrt_unique) simp_all

theorem ComputeLighting_shadow_witness:
  "lightType unitLight = Point \<and>
   Fin (1 / 3) \<in> set (roots (vec 0 0 (- 3)) (Sub (position unitLight) (vec 0 0 (- 3))) unitSphere) \<and>
   flt Epsilon (Fin (1 / 3)) \<and> fle (Fin (1 / 3)) (Fin 1) \<and> \<not> IsNull unitSphere \<and>
   ComputeLighting unitLight (vec 0 0 (- 3)) (vec 0 0 1) (vec 0 0 1) (Fin (- 1)) [unitSphere] =
     Inr (Fin 0)"
proof -
  have l: "lightType unitLight = Point" by (simp add: unitLight_def)
  have m: "unitSphere \<in> set [unitSphere]" by simp
  have r: "Fin (1 / 3) \<in>
      set (roots (vec 0 0 (- 3)) (Sub (position unitLight) (vec 0 0 (- 3))) unitSphere)"
    by (simp add: roots_def ComputeIntersection_def Dot_def Sub_def vec_def unitSphere_def
        unitLight_def fsub_def sqrt_144)
  have lo: "flt Epsilon (Fin (1 / 3))" by (simp add: Epsilon_def)
  have hi: "fle (Fin (1 / 3)) (Fin 1)" by (simp add: fle_def)
  have n: "\<not> IsNull unitSphere"
    by (simp add: IsNull_def unitSphere_def fsub_def fle_def Epsilon_def)
  from ComputeLighting_shadow [OF l m r lo hi, of "vec 0 0 1" "vec 0 0 1" "Fin (- 1)"] n
  have "ComputeLighting unitLight (vec 0 0 (- 3)) (vec 0 0 1) (vec 0 0 1) (Fin (- 1))
      [unitSphere] = Inr (Fin 0)"
    by simp
  with l r lo hi n show ?thesis by blast
qed

text \<open>
  The claim as stated fails on a scene whose only sphere has radius 0 and lies at the world
  origin. The shadow ray from \<open>(0, 0, -3)\<close> to the light at \<open>(0, 0, 3)\<close> meets it at
  \<open>t = 1/2\<close>, inside \<open>(Epsilon, 1]\<close>; \<open>FindClosest\<close> returns that sphere, \<open>IsNull\<close>
  takes it for the null sphere, and the light contributes 2, not 0.
\<close>

theorem ComputeLighting_shadow_null_sphere:
  "roots (vec 0 0 (- 3)) (Sub (position unitLight) (vec 0 0 (- 3))) dotSphere =
     [Fin (1 / 2), Fin (1 / 2)] \<and>
   flt Epsilon (Fin (1 / 2)) \<and> fle (Fin (1 / 2)) (Fin 1) \<and>
   ComputeLighting unitLight (vec 0 0 (- 3)) (vec 0 0 1) (vec 0 0 1) (Fin (- 1)) [dotSphere] =
     Inr (Fin 2)"
  by (simp add: roots_def ComputeLighting_def FindClosest_def ComputeIntersection_def IsNull_def
      Dot_def Sub_def Length_def vec_def dotSphere_def unitLight_def fsub_def Point_def Ambient_def
      Epsilon_def MaxFloat64_def fge_def fle_def fgt_def fmax_def)

section \<open>The specular term\<close>

text \<open>
  C3, as the code has it. For a point light that nothing occludes and a specular exponent
  above \<open>-1\<close>, \<open>ComputeLighting\<close> panics when the reflected direction or the inverse
  view direction has length 0, and otherwise returns the clamped sum of the diffuse term and
  \<open>intensity * (max(0, dot) / (|reflect| * |inverseView|))^specularExponent\<close>: the quotient
  by the two lengths is taken first, and the exponent is applied to the quotient.
\<close>

theorem ComputeLighting_specular:
  assumes "lightType light = Point"
      and "FindClosest point (Sub (position light) point) spheres Epsilon (Fin 1) =
             Inr (closestSphere, t)"
      and "IsNull closestSphere"
      and "fgt specularExp (Fin (- 1))"
  shows "ComputeLighting light point normal inverseDir specularExp spheres =
           (if feq (Length (ReflectRay (Sub (position light) point) normal)) (Fin 0) \<or>
               feq (Length inverseDir) (Fin 0)
            then Inl ComputeLighting_Division_by_zero
            else Inr (fmax (Fin 0)
                   (fadd (diffuse light point normal)
                      (specular_term (intensity light)
                         (ReflectRay (Sub (position light) point) normal) inverseDir
                         specularExp))))"
  using assms
  by (simp add: ComputeLighting_def Point_def Ambient_def diffuse_def specular_term_def Let_def)

theorem ComputeLighting_specular_witness:
  "lightType unitLight = Point \<and>
   FindClosest (vec 0 0 1) (Sub (position unitLight) (vec 0 0 1)) [] Epsilon (Fin 1) =
     Inr (nullSphere, MaxFloat64) \<and>
   IsNull nullSphere \<and> fgt (Fin 2) (Fin (- 1)) \<and>
   ComputeLighting unitLight (vec 0 0 1) (vec 0 0 1) (vec 0 0 1) (Fin 2) [] = Inr (Fin 3)"
proof -
  have l: "lightType unitLight = Point" by (simp add: unitLight_def)
  have f: "FindClosest (vec 0 0 1) (Sub (position unitLight) (vec 0 0 1)) [] Epsilon (Fin 1) =
      Inr (nullSphere, MaxFloat64)"
    by (simp add: FindClosest_def)
  have e: "fgt (Fin 2) (Fin (- 1))" by (simp add: fgt_def)
  from ComputeLighting_specular [OF l f IsNull_nullSphere e, of "vec 0 0 1" "vec 0 0 1"]
  have "ComputeLighting unitLight (vec 0 0 1) (vec 0 0 1) (vec 0 0 1) (Fin 2) [] = Inr (Fin 3)"
    by (simp add: diffuse_def specular_term_def unitLight_def vec_def Sub_def fsub_def Dot_def
        Length_def ReflectRay_def Reflect_def Negate_def fmax_def fpow_def)
  with l f e IsNull_nullSphere show ?thesis by simp
qed

text \<open>
  The claim as stated fails where \<open>|reflect| * |inverseView|\<close> is not 1. For the light of
  intensity 1 at \<open>(0, 0, 3)\<close>, the surface point \<open>(0, 0, 1)\<close>, the normal and inverse view
  direction \<open>(0, 0, 1)\<close> and the exponent 2: the reflected direction is \<open>(0, 0, 2)\<close>, the
  dot product is 2, the result is 3 and the diffuse term is 2, so the code has added
  \<open>(2 / 2)^2 = 1\<close>, where the formula of the claim gives \<open>2^2 / 2 = 2\<close>.
\<close>

theorem ComputeLighting_specular_not_as_claimed:
  "ComputeLighting unitLight (vec 0 0 1) (vec 0 0 1) (vec 0 0 1) (Fin 2) [] = Inr (Fin 3) \<and>
   diffuse unitLight (vec 0 0 1) (vec 0 0 1) = Fin 2 \<and>
   specular_term (intensity unitLight)
     (ReflectRay (Sub (position unitLight) (vec 0 0 1)) (vec 0 0 1)) (vec 0 0 1) (Fin 2) = Fin 1 \<and>
   specular_as_claimed (intensity unitLight)
     (ReflectRay (Sub (position unitLight) (vec 0 0 1)) (vec 0 0 1)) (vec 0 0 1) (Fin 2) = Fin 2"
  by (simp add: ComputeLighting_def FindClosest_def IsNull_nullSphere diffuse_def
      specular_term_def specular_as_claimed_def unitLight_def vec_def Sub_def fsub_def Dot_def
      Length_def ReflectRay_def Reflect_def Negate_def fmax_def fpow_def fgt_def Point_def
      Ambient_def)

section \<open>The reflection step of TraceRay\<close>

lemma uint8_of_float64_exact: "uint8_of_float64 (fmul (float64_of_uint8 c) (Fin 1)) = c"
proof -
  have "\<not> real (unat c) < 0" by (simp only: not_less of_nat_0_le_iff)
  moreover have "\<lfloor>real (unat c)\<rfloor> = int (unat c)" by (rule floor_of_nat)
  moreover have "word_of_int (int (unat c)) = c" by simp
  moreover have "- (2 ^ 31) \<le> int (unat c) \<and> int (unat c) < 2 ^ 31"
  proof -
    have "unat c < 2 ^ LENGTH(8)" by (rule unsigned_less)
    then have "unat c < 256" by simp
    then have "int (unat c) < 256" by linarith
    moreover have "0 \<le> int (unat c)" by (rule of_nat_0_le_iff)
    moreover have "(2 :: int) ^ 31 = 2147483648" by simp
    ultimately show ?thesis by linarith
  qed
  ultimately show ?thesis by (simp add: float64_of_uint8_def Let_def del: of_nat_unat)
qed

lemma uint8_of_float64_zero: "uint8_of_float64 (fmul (float64_of_uint8 c) (Fin 0)) = 0"
  by (simp add: float64_of_uint8_def)

lemma scaleColor_one: "scaleColor c (Fin 1) = c"
  by (simp add: scaleColor_def uint8_of_float64_exact)

lemma scaleColor_zero: "scaleColor c (Fin 0) = c\<lparr>R := 0, G := 0, B := 0\<rparr>"
  by (simp add: scaleColor_def uint8_of_float64_zero)

lemma blendColor_one:
  "blendColor (scaleColor reflectedColor (Fin 1)) (scaleColor localColor (fsub (Fin 1) (Fin 1))) =
     reflectedColor"
  by (simp add: scaleColor_one scaleColor_zero blendColor_def fsub_def)

lemma matte_hit:
  "FindClosest (vec 0 (- 1) 0) (vec 0 0 1) [matteSphere] (Fin 1) MaxFloat64 =
     Inr (matteSphere, Fin 2)"
  by (simp add: FindClosest_def ComputeIntersection_def matteSphere_def redSphere_def Sub_def
      Dot_def vec_def fsub_def fge_def fle_def MaxFloat64_def)

lemma mirror_hit:
  "FindClosest (vec 0 (- 1) 0) (vec 0 0 1) [mirrorSphere] (Fin 1) MaxFloat64 =
     Inr (mirrorSphere, Fin 2)"
  by (simp add: FindClosest_def ComputeIntersection_def mirrorSphere_def redSphere_def Sub_def
      Dot_def vec_def fsub_def fge_def fle_def MaxFloat64_def)

lemma not_IsNull_red: "\<not> IsNull matteSphere" "\<not> IsNull mirrorSphere"
  by (simp_all add: IsNull_def matteSphere_def mirrorSphere_def redSphere_def fsub_def fle_def
      Epsilon_def)

lemma ambient_sum:
  "TraceRay_lights [ambientLight] point normal inverseDir specularExp spheres (Fin 0) =
     Inr (Fin (3 / 10))"
  by (simp add: ComputeLighting_def ambientLight_def)

lemma mirror_reflected_ray:
  "hitPoint (vec 0 (- 1) 0) (vec 0 0 1) (Fin 2) = vec 0 (- 1) 2"
  "ReflectRay (Negate (vec 0 0 1)) (hitNormal (vec 0 (- 1) 0) (vec 0 0 1) mirrorSphere (Fin 2)) =
     vec 0 0 (- 1)"
  by (simp_all add: hitPoint_def hitNormal_def ReflectRay_def Reflect_def Negate_def Normalize_def
      DivScalar_def Add_def MulScalar_def Sub_def Dot_def Length_def vec_def mirrorSphere_def
      redSphere_def fsub_def fgt_def)

lemma mirror_reflected_miss:
  "TraceRay (vec 0 (- 1) 2) (vec 0 0 (- 1)) [mirrorSphere] [ambientLight] depth Epsilon MaxFloat64 =
     ([], Inr background)"
  by (simp add: TraceRay.simps FindClosest_def ComputeIntersection_def mirrorSphere_def
      redSphere_def Sub_def Dot_def Length_def vec_def fsub_def fge_def fle_def Epsilon_def
      IsNull_nullSphere)

lemma matte_colour:
  "scaleColor (color matteSphere) (fmin MaxIntensity (Fin (3 / 10))) =
     \<lparr>R = 76, G = 0, B = 0, A = 255\<rparr>"
  by (simp add: scaleColor_def matteSphere_def redSphere_def fmin_def MaxIntensity_def
      float64_of_uint8_def)


text \<open>
  C7. Let \<open>TraceRay\<close> hit a sphere and the lights give \<open>lightSum\<close> without a panic.
  With \<open>reflective = 0\<close> the result is exactly the locally shaded colour, the sphere's
  colour scaled by \<open>min(MaxIntensity, lightSum)\<close>. With \<open>reflective = 1\<close> and a
  recursion depth above 0 the result is exactly the result of the recursive call on the
  reflected ray, all four channels (and the same panic, if that call panics).
\<close>

theorem TraceRay_blend_identity:
  assumes hit: "FindClosest startPoint direction spheres tMin tMax = Inr (closestSphere, closestT)"
      and real: "\<not> IsNull closestSphere"
      and lit: "TraceRay_lights lights (hitPoint startPoint direction closestT)
                  (hitNormal startPoint direction closestSphere closestT) (Negate direction)
                  (specular closestSphere) spheres (Fin 0) = Inr lightSum"
  shows "(reflective closestSphere = Fin 0 \<longrightarrow>
            snd (TraceRay startPoint direction spheres lights recursionDepth tMin tMax) =
              Inr (scaleColor (color closestSphere) (fmin MaxIntensity lightSum))) \<and>
         (reflective closestSphere = Fin 1 \<and> 0 < sint recursionDepth \<longrightarrow>
            snd (TraceRay startPoint direction spheres lights recursionDepth tMin tMax) =
              snd (TraceRay (hitPoint startPoint direction closestT)
                     (ReflectRay (Negate direction)
                        (hitNormal startPoint direction closestSphere closestT))
                     spheres lights (recursionDepth - 1) Epsilon tMax))"
proof (intro conjI impI)
  assume "reflective closestSphere = Fin 0"
  with hit real lit
  show "snd (TraceRay startPoint direction spheres lights recursionDepth tMin tMax) =
      Inr (scaleColor (color closestSphere) (fmin MaxIntensity lightSum))"
    by (subst TraceRay.simps)
       (simp add: hitPoint_def hitNormal_def Let_def fle_def)
next
  assume "reflective closestSphere = Fin 1 \<and> 0 < sint recursionDepth"
  with hit real lit
  show "snd (TraceRay startPoint direction spheres lights recursionDepth tMin tMax) =
      snd (TraceRay (hitPoint startPoint direction closestT)
             (ReflectRay (Negate direction)
                (hitNormal startPoint direction closestSphere closestT))
             spheres lights (recursionDepth - 1) Epsilon tMax)"
    by (subst TraceRay.simps)
       (simp add: hitPoint_def hitNormal_def Let_def fle_def blendColor_one
          split: prod.splits sum.splits)
qed

theorem TraceRay_blend_identity_witness:
  "FindClosest (vec 0 (- 1) 0) (vec 0 0 1) [matteSphere] (Fin 1) MaxFloat64 =
     Inr (matteSphere, Fin 2) \<and>
   \<not> IsNull matteSphere \<and> reflective matteSphere = Fin 0 \<and>
   snd (TraceRay (vec 0 (- 1) 0) (vec 0 0 1) [matteSphere] [ambientLight] 3 (Fin 1) MaxFloat64) =
     Inr (scaleColor (color matteSphere) (fmin MaxIntensity (Fin (3 / 10)))) \<and>
   FindClosest (vec 0 (- 1) 0) (vec 0 0 1) [mirrorSphere] (Fin 1) MaxFloat64 =
     Inr (mirrorSphere, Fin 2) \<and>
   \<not> IsNull mirrorSphere \<and> reflective mirrorSphere = Fin 1 \<and> 0 < sint (3 :: int8) \<and>
   snd (TraceRay (vec 0 (- 1) 0) (vec 0 0 1) [mirrorSphere] [ambientLight] 3 (Fin 1) MaxFloat64) =
     snd (TraceRay (hitPoint (vec 0 (- 1) 0) (vec 0 0 1) (Fin 2))
            (ReflectRay (Negate (vec 0 0 1))
               (hitNormal (vec 0 (- 1) 0) (vec 0 0 1) mirrorSphere (Fin 2)))
            [mirrorSphere] [ambientLight] (3 - 1) Epsilon MaxFloat64)"
proof -
  have r0: "reflective matteSphere = Fin 0" by (simp add: matteSphere_def)
  have r1: "reflective mirrorSphere = Fin 1" by (simp add: mirrorSphere_def)
  have d: "0 < sint (3 :: int8)" by simp
  from TraceRay_blend_identity [OF matte_hit not_IsNull_red(1) ambient_sum, where recursionDepth = 3] r0
  have a: "snd (TraceRay (vec 0 (- 1) 0) (vec 0 0 1) [matteSphere] [ambientLight] 3 (Fin 1)
      MaxFloat64) = Inr (scaleColor (color matteSphere) (fmin MaxIntensity (Fin (3 / 10))))"
    by blast
  from TraceRay_blend_identity [OF mirror_hit not_IsNull_red(2) ambient_sum, where recursionDepth = 3]
    r1 d
  have b: "snd (TraceRay (vec 0 (- 1) 0) (vec 0 0 1) [mirrorSphere] [ambientLight] 3 (Fin 1)
      MaxFloat64) =
    snd (TraceRay (hitPoint (vec 0 (- 1) 0) (vec 0 0 1) (Fin 2))
            (ReflectRay (Negate (vec 0 0 1))
               (hitNormal (vec 0 (- 1) 0) (vec 0 0 1) mirrorSphere (Fin 2)))
            [mirrorSphere] [ambientLight] (3 - 1) Epsilon MaxFloat64)"
    by blast
  from matte_hit mirror_hit not_IsNull_red r0 r1 d a b show ?thesis by blast
qed

section \<open>The alpha channel\<close>

text \<open>
  C10. \<open>TraceRay\<close> never scales or blends alpha. When \<open>FindClosest\<close> returns the null
  sphere (or one taken for it) the alpha is 255. On a hit whose lights give a sum, the
  alpha is the hit sphere's own when \<open>reflective \<le> 0\<close> or the depth is exhausted, and
  otherwise it is the alpha of the recursive call on the reflected ray: the sphere's alpha
  is discarded.
\<close>

theorem TraceRay_alpha:
  assumes hit: "FindClosest startPoint direction spheres tMin tMax = Inr (closestSphere, closestT)"
  shows "(IsNull closestSphere \<longrightarrow>
            alpha (snd (TraceRay startPoint direction spheres lights recursionDepth tMin tMax)) =
              Inr 255) \<and>
         (\<not> IsNull closestSphere \<and>
          TraceRay_lights lights (hitPoint startPoint direction closestT)
            (hitNormal startPoint direction closestSphere closestT) (Negate direction)
            (specular closestSphere) spheres (Fin 0) = Inr lightSum \<longrightarrow>
            alpha (snd (TraceRay startPoint direction spheres lights recursionDepth tMin tMax)) =
              (if fle (reflective closestSphere) (Fin 0) \<or> sint recursionDepth \<le> 0
               then Inr (A (color closestSphere))
               else alpha (snd (TraceRay (hitPoint startPoint direction closestT)
                     (ReflectRay (Negate direction)
                        (hitNormal startPoint direction closestSphere closestT))
                     spheres lights (recursionDepth - 1) Epsilon tMax))))"
proof (intro conjI impI)
  assume "IsNull closestSphere"
  with hit
  show "alpha (snd (TraceRay startPoint direction spheres lights recursionDepth tMin tMax)) =
      Inr 255"
    by (subst TraceRay.simps) (simp add: alpha_def background_def)
next
  assume "\<not> IsNull closestSphere \<and>
          TraceRay_lights lights (hitPoint startPoint direction closestT)
            (hitNormal startPoint direction closestSphere closestT) (Negate direction)
            (specular closestSphere) spheres (Fin 0) = Inr lightSum"
  with hit
  show "alpha (snd (TraceRay startPoint direction spheres lights recursionDepth tMin tMax)) =
              (if fle (reflective closestSphere) (Fin 0) \<or> sint recursionDepth \<le> 0
               then Inr (A (color closestSphere))
               else alpha (snd (TraceRay (hitPoint startPoint direction closestT)
                     (ReflectRay (Negate direction)
                        (hitNormal startPoint direction closestSphere closestT))
                     spheres lights (recursionDepth - 1) Epsilon tMax)))"
    by (subst TraceRay.simps)
       (simp add: hitPoint_def hitNormal_def Let_def alpha_def scaleColor_def blendColor_def
          split: prod.splits sum.splits)
qed


lemma red_miss:
  "FindClosest (vec 0 0 0) (vec 0 1 0) [redSphere] (Fin 1) MaxFloat64 =
     Inr (nullSphere, MaxFloat64)"
  by (simp add: FindClosest_def ComputeIntersection_def redSphere_def Sub_def Dot_def vec_def
      fsub_def fge_def fle_def)

theorem TraceRay_alpha_witness:
  "FindClosest (vec 0 0 0) (vec 0 1 0) [redSphere] (Fin 1) MaxFloat64 =
     Inr (nullSphere, MaxFloat64) \<and> IsNull nullSphere \<and>
   alpha (snd (TraceRay (vec 0 0 0) (vec 0 1 0) [redSphere] [ambientLight] 3 (Fin 1) MaxFloat64)) =
     Inr 255 \<and>
   FindClosest (vec 0 (- 1) 0) (vec 0 0 1) [matteSphere] (Fin 1) MaxFloat64 =
     Inr (matteSphere, Fin 2) \<and> \<not> IsNull matteSphere \<and>
   alpha (snd (TraceRay (vec 0 (- 1) 0) (vec 0 0 1) [matteSphere] [ambientLight] 3 (Fin 1)
                MaxFloat64)) = Inr (A (color matteSphere)) \<and>
   FindClosest (vec 0 (- 1) 0) (vec 0 0 1) [mirrorSphere] (Fin 1) MaxFloat64 =
     Inr (mirrorSphere, Fin 2) \<and> \<not> IsNull mirrorSphere \<and>
   alpha (snd (TraceRay (vec 0 (- 1) 0) (vec 0 0 1) [mirrorSphere] [ambientLight] 3 (Fin 1)
                MaxFloat64)) =
     alpha (snd (TraceRay (vec 0 (- 1) 2) (vec 0 0 (- 1)) [mirrorSphere] [ambientLight] (3 - 1)
                   Epsilon MaxFloat64))"
proof -
  from TraceRay_alpha [OF red_miss, where lights = "[ambientLight]" and recursionDepth = 3]
    IsNull_nullSphere
  have a: "alpha (snd (TraceRay (vec 0 0 0) (vec 0 1 0) [redSphere] [ambientLight] 3 (Fin 1)
      MaxFloat64)) = Inr 255"
    by blast
  from TraceRay_alpha [OF matte_hit, where lights = "[ambientLight]" and recursionDepth = 3
      and lightSum = "Fin (3 / 10)"] not_IsNull_red(1) ambient_sum
  have b: "alpha (snd (TraceRay (vec 0 (- 1) 0) (vec 0 0 1) [matteSphere] [ambientLight] 3 (Fin 1)
      MaxFloat64)) = Inr (A (color matteSphere))"
    by (simp add: matteSphere_def fle_def)
  from TraceRay_alpha [OF mirror_hit, where lights = "[ambientLight]" and recursionDepth = 3
      and lightSum = "Fin (3 / 10)"] not_IsNull_red(2) ambient_sum
  have c: "alpha (snd (TraceRay (vec 0 (- 1) 0) (vec 0 0 1) [mirrorSphere] [ambientLight] 3 (Fin 1)
      MaxFloat64)) =
    alpha (snd (TraceRay (vec 0 (- 1) 2) (vec 0 0 (- 1)) [mirrorSphere] [ambientLight] (3 - 1)
                   Epsilon MaxFloat64))"
    by (simp add: mirror_reflected_ray) (simp add: mirrorSphere_def fle_def)
  from a b c red_miss matte_hit mirror_hit IsNull_nullSphere not_IsNull_red show ?thesis
    by blast
qed

section \<open>Termination of TraceRay\<close>

text \<open>
  \<open>TraceRay_rel callee caller\<close> is the call relation of the definition of
  \<open>TraceRay\<close>: the body, run on the arguments \<open>caller\<close>, reaches its recursive call,
  with the arguments \<open>callee\<close>. \<open>TraceRay_dom\<close> is the accessible part of that relation:
  the arguments from which every chain of nested calls is finite.
\<close>

lemma TraceRay_rel_depth:
  assumes "TraceRay_rel (p', d', ss', ls', depth', tMin', tMax')
             (startPoint, direction, spheres, lights, recursionDepth, tMin, tMax)"
  shows "0 < sint recursionDepth \<and> sint depth' = sint recursionDepth - 1"
  using assms by (cases rule: TraceRay_rel.cases) (auto simp: int8_decrement)

lemma TraceRay_total:
  "TraceRay_dom (startPoint, direction, spheres, lights, recursionDepth, tMin, tMax)"
proof (induction "nat (sint recursionDepth)"
    arbitrary: startPoint direction spheres lights recursionDepth tMin tMax rule: less_induct)
  case less
  show ?case
  proof (rule accpI)
    fix callee
    assume call: "TraceRay_rel callee
      (startPoint, direction, spheres, lights, recursionDepth, tMin, tMax)"
    obtain p' d' ss' ls' depth' tMin' tMax' where
      callee: "callee = (p', d', ss', ls', depth', tMin', tMax')"
      by (cases callee)
    from call have "0 < sint recursionDepth \<and> sint depth' = sint recursionDepth - 1"
      unfolding callee by (rule TraceRay_rel_depth)
    then have "nat (sint depth') < nat (sint recursionDepth)" by simp
    then show "TraceRay_dom callee" unfolding callee by (rule less.hyps)
  qed
qed

lemma TraceRay_depth_exhausted:
  "sint recursionDepth \<le> 0 \<Longrightarrow>
   TraceRay startPoint direction spheres lights recursionDepth tMin tMax =
     TraceRay_local startPoint direction spheres lights tMin tMax"
  by (subst TraceRay.simps)
     (simp add: TraceRay_local_def hitPoint_def hitNormal_def Let_def
        split: sum.splits prod.splits)

lemma mirror_call:
  "TraceRay_rel
     (vec 0 (- 1) 2, vec 0 0 (- 1), [mirrorSphere], [ambientLight], 3 - 1, Epsilon, MaxFloat64)
     (vec 0 (- 1) 0, vec 0 0 1, [mirrorSphere], [ambientLight], 3, Fin 1, MaxFloat64)"
proof -
  have "TraceRay_rel
     (hitPoint (vec 0 (- 1) 0) (vec 0 0 1) (Fin 2),
      ReflectRay (Negate (vec 0 0 1))
        (hitNormal (vec 0 (- 1) 0) (vec 0 0 1) mirrorSphere (Fin 2)),
      [mirrorSphere], [ambientLight], 3 - 1, Epsilon, MaxFloat64)
     (vec 0 (- 1) 0, vec 0 0 1, [mirrorSphere], [ambientLight], 3, Fin 1, MaxFloat64)"
    unfolding hitPoint_def hitNormal_def
    by (rule TraceRay_rel.intros [OF refl mirror_hit refl not_IsNull_red(2) refl refl ambient_sum
          refl refl _ refl])
       (simp add: mirrorSphere_def fle_def)
  then show ?thesis by (simp only: mirror_reflected_ray)
qed

text \<open>
  C8. \<open>TraceRay\<close> terminates on every input: every argument tuple is in
  \<open>TraceRay_dom\<close>. Each recursive call is made at a depth above 0 and passes that depth
  minus one, with no wrap-around of the \<open>int8\<close>. A call with a depth of 0 or below makes
  no recursive call, whatever the reflective coefficient of the sphere it hits, and its
  result is that of \<open>TraceRay_local\<close>.
\<close>

theorem TraceRay_terminates:
  "TraceRay_dom (startPoint, direction, spheres, lights, recursionDepth, tMin, tMax) \<and>
   (TraceRay_rel (p', d', ss', ls', depth', tMin', tMax')
      (startPoint, direction, spheres, lights, recursionDepth, tMin, tMax) \<longrightarrow>
    0 < sint recursionDepth \<and> sint depth' = sint recursionDepth - 1) \<and>
   (sint recursionDepth \<le> 0 \<longrightarrow>
    (\<forall>callee. \<not> TraceRay_rel callee
       (startPoint, direction, spheres, lights, recursionDepth, tMin, tMax)) \<and>
    TraceRay startPoint direction spheres lights recursionDepth tMin tMax =
      TraceRay_local startPoint direction spheres lights tMin tMax)"
proof (intro conjI impI allI)
  show "TraceRay_dom (startPoint, direction, spheres, lights, recursionDepth, tMin, tMax)"
    by (rule TraceRay_total)
next
  assume "TraceRay_rel (p', d', ss', ls', depth', tMin', tMax')
    (startPoint, direction, spheres, lights, recursionDepth, tMin, tMax)"
  then have *: "0 < sint recursionDepth \<and> sint depth' = sint recursionDepth - 1"
    by (rule TraceRay_rel_depth)
  from * show "0 < sint recursionDepth" ..
  from * show "sint depth' = sint recursionDepth - 1" ..
next
  fix callee
  assume z: "sint recursionDepth \<le> 0"
  show "\<not> TraceRay_rel callee
    (startPoint, direction, spheres, lights, recursionDepth, tMin, tMax)"
  proof
    assume call: "TraceRay_rel callee
      (startPoint, direction, spheres, lights, recursionDepth, tMin, tMax)"
    obtain p' d' ss' ls' depth' tMin' tMax' where
      "callee = (p', d', ss', ls', depth', tMin', tMax')"
      by (cases callee)
    with call have "0 < sint recursionDepth" by (simp add: TraceRay_rel_depth)
    with z show False by simp
  qed
next
  assume "sint recursionDepth \<le> 0"
  then show "TraceRay startPoint direction spheres lights recursionDepth tMin tMax =
      TraceRay_local startPoint direction spheres lights tMin tMax"
    by (rule TraceRay_depth_exhausted)
qed

theorem TraceRay_terminates_witness:
  "TraceRay_dom (vec 0 (- 1) 0, vec 0 0 1, [mirrorSphere], [ambientLight], 3, Fin 1, MaxFloat64) \<and>
   TraceRay_rel
     (vec 0 (- 1) 2, vec 0 0 (- 1), [mirrorSphere], [ambientLight], 3 - 1, Epsilon, MaxFloat64)
     (vec 0 (- 1) 0, vec 0 0 1, [mirrorSphere], [ambientLight], 3, Fin 1, MaxFloat64) \<and>
   0 < sint (3 :: int8) \<and> sint (3 - 1 :: int8) = sint (3 :: int8) - 1 \<and>
   sint (0 :: int8) \<le> 0 \<and>
   TraceRay (vec 0 (- 1) 0) (vec 0 0 1) [mirrorSphere] [ambientLight] 0 (Fin 1) MaxFloat64 =
     TraceRay_local (vec 0 (- 1) 0) (vec 0 0 1) [mirrorSphere] [ambientLight] (Fin 1) MaxFloat64"
proof -
  have z: "sint (0 :: int8) \<le> 0" by simp
  from TraceRay_terminates [of "vec 0 (- 1) 0" "vec 0 0 1" "[mirrorSphere]" "[ambientLight]" 3
      "Fin 1" MaxFloat64 "vec 0 (- 1) 2" "vec 0 0 (- 1)" "[mirrorSphere]" "[ambientLight]" "3 - 1"
      Epsilon MaxFloat64] mirror_call
  have a: "TraceRay_dom
      (vec 0 (- 1) 0, vec 0 0 1, [mirrorSphere], [ambientLight], 3, Fin 1, MaxFloat64)"
    and b: "0 < sint (3 :: int8) \<and> sint (3 - 1 :: int8) = sint (3 :: int8) - 1"
    by blast+
  from TraceRay_terminates [of "vec 0 (- 1) 0" "vec 0 0 1" "[mirrorSphere]" "[ambientLight]" 0
      "Fin 1" MaxFloat64] z
  have c: "TraceRay (vec 0 (- 1) 0) (vec 0 0 1) [mirrorSphere] [ambientLight] 0 (Fin 1)
      MaxFloat64 =
    TraceRay_local (vec 0 (- 1) 0) (vec 0 0 1) [mirrorSphere] [ambientLight] (Fin 1) MaxFloat64"
    by blast
  from a b c z mirror_call show ?thesis by blast
qed

end
